theory Spec2Isabelle
  imports Main "HOL-Library.Sublist"
begin

section \<open>Python strings\<close>

text \<open>
  A Python \<open>str\<close> is a sequence of code points. A string is modelled as a list of
  \<open>char\<close>, one \<open>char\<close> per code point, so the strings covered are the ones over
  U+0000 .. U+00FF; \<open>of_char\<close> reads the code point. The string methods the two
  source files call are written out below as Python defines them on that range.
\<close>

datatype error = IndexError | ValueError

text \<open>\<open>xs[i]\<close> for a literal index \<open>i \<ge> 0\<close>: IndexError when the list is too short.\<close>

definition item :: "'a list \<Rightarrow> nat \<Rightarrow> error + 'a" where
  "item xs i = (if i < length xs then Inr (xs ! i) else Inl IndexError)"

text \<open>
  \<open>for x in xs: state = body(x, state)\<close>, where the body may raise: the loop stops at
  the first error.
\<close>

fun for_each :: "'x list \<Rightarrow> ('x \<Rightarrow> 's \<Rightarrow> error + 's) \<Rightarrow> 's \<Rightarrow> error + 's" where
  "for_each [] body s = Inr s"
| "for_each (x # xs) body s =
     (case body x s of Inl e \<Rightarrow> Inl e | Inr s' \<Rightarrow> for_each xs body s')"

text \<open>
  \<open>str.lower()\<close>: the upper-case letters below U+0100 are A-Z, U+00C0 .. U+00D6 and
  U+00D8 .. U+00DE; each has its lower-case form 32 code points higher.
\<close>

definition lower_char :: "char \<Rightarrow> char" where
  "lower_char c =
     (let n = (of_char c :: nat) in
      if (65 \<le> n \<and> n \<le> 90) \<or> (192 \<le> n \<and> n \<le> 222 \<and> n \<noteq> 215)
      then char_of (n + 32) else c)"

definition str_lower :: "string \<Rightarrow> string" where
  "str_lower s = map lower_char s"

text \<open>\<open>sub in s\<close>, \<open>s.startswith(p)\<close> and \<open>s.endswith(p)\<close>.\<close>

fun is_in :: "'a list \<Rightarrow> 'a list \<Rightarrow> bool" where
  "is_in sub [] = (sub = [])"
| "is_in sub (c # cs) = (prefix sub (c # cs) \<or> is_in sub cs)"

definition startswith :: "'a list \<Rightarrow> 'a list \<Rightarrow> bool" where
  "startswith s p = prefix p s"

definition endswith :: "'a list \<Rightarrow> 'a list \<Rightarrow> bool" where
  "endswith s p = prefix (rev p) (rev s)"

text \<open>
  \<open>s.split(sep)\<close>: the text is cut at every occurrence of \<open>sep\<close>, found from the
  left and not overlapping; \<open>acc\<close> holds (reversed) the characters read since the last
  cut. Where \<open>sep\<close> starts the rest \<open>c # cs\<close>, the scan goes on behind it, at
  \<open>drop (length sep - 1) cs\<close>. An empty separator raises ValueError.
\<close>

fun split_on :: "'a list \<Rightarrow> 'a list \<Rightarrow> 'a list \<Rightarrow> 'a list list" where
  "split_on sep acc [] = [rev acc]"
| "split_on sep acc (c # cs) =
     (if prefix sep (c # cs) then rev acc # split_on sep [] (drop (length sep - 1) cs)
      else split_on sep (c # acc) cs)"

definition str_split :: "'a list \<Rightarrow> 'a list \<Rightarrow> error + 'a list list" where
  "str_split s sep = (if sep = [] then Inl ValueError else Inr (split_on sep [] s))"

text \<open>
  \<open>s.replace(old, new)\<close>: every occurrence of \<open>old\<close>, from the left and not
  overlapping, becomes \<open>new\<close>; with an empty \<open>old\<close>, \<open>new\<close> is put before every
  character and at the end.
\<close>

fun replace_all :: "'a list \<Rightarrow> 'a list \<Rightarrow> 'a list \<Rightarrow> 'a list" where
  "replace_all old new [] = []"
| "replace_all old new (c # cs) =
     (if prefix old (c # cs) then new @ replace_all old new (drop (length old - 1) cs)
      else c # replace_all old new cs)"

definition str_replace :: "'a list \<Rightarrow> 'a list \<Rightarrow> 'a list \<Rightarrow> 'a list" where
  "str_replace s old new =
     (if old = [] then new @ concat (map (\<lambda>c. c # new) s) else replace_all old new s)"

text \<open>
  \<open>s.strip()\<close> removes white space at both ends. Below U+0100 the white-space
  characters are U+0009 .. U+000D, U+001C .. U+0020, U+0085 and U+00A0.
\<close>

definition is_space :: "char \<Rightarrow> bool" where
  "is_space c =
     (let n = (of_char c :: nat) in
      (9 \<le> n \<and> n \<le> 13) \<or> (28 \<le> n \<and> n \<le> 32) \<or> n = 133 \<or> n = 160)"

definition str_strip :: "string \<Rightarrow> string" where
  "str_strip s = rev (dropWhile is_space (rev (dropWhile is_space s)))"

text \<open>
  \<open>s.title()\<close>: a character that follows a cased character is lower-cased, any other
  character is title-cased. The title-case forms of U+00B5 and U+00FF are U+039C and
  U+0178, and the one of U+00DF is the two characters \<open>Ss\<close>, so the result is a list of
  code points; \<open>codes\<close> reads a string as such a list.
\<close>

definition codes :: "string \<Rightarrow> nat list" where
  "codes s = map of_char s"

definition is_cased :: "char \<Rightarrow> bool" where
  "is_cased c =
     (let n = (of_char c :: nat) in
      (65 \<le> n \<and> n \<le> 90) \<or> (97 \<le> n \<and> n \<le> 122) \<or> n = 170 \<or> n = 181 \<or> n = 186 \<or>
      (192 \<le> n \<and> n \<le> 214) \<or> (216 \<le> n \<and> n \<le> 246) \<or> (248 \<le> n \<and> n \<le> 255))"

definition title_char :: "char \<Rightarrow> nat list" where
  "title_char c =
     (let n = (of_char c :: nat) in
      if 97 \<le> n \<and> n \<le> 122 then [n - 32]
      else if n = 181 then [924]
      else if n = 223 then [83, 115]
      else if (224 \<le> n \<and> n \<le> 246) \<or> (248 \<le> n \<and> n \<le> 254) then [n - 32]
      else if n = 255 then [376]
      else [n])"

fun title_from :: "bool \<Rightarrow> string \<Rightarrow> nat list" where
  "title_from previous_is_cased [] = []"
| "title_from previous_is_cased (c # cs) =
     (if previous_is_cased then [of_char (lower_char c)] else title_char c)
     @ title_from (is_cased c) cs"

definition str_title :: "string \<Rightarrow> nat list" where
  "str_title s = title_from False s"

text \<open>The truth value of an optional string: \<open>None\<close> and \<open>""\<close> are false.\<close>

fun truthy :: "string option \<Rightarrow> bool" where
  "truthy None = False"
| "truthy (Some s) = (s \<noteq> [])"

section \<open>helpers/compare.py\<close>

text \<open>
  \<open>unidecode\<close> is a package outside the repository. It transliterates character by
  character: a code point below U+0080 is kept as it is, any other is replaced by its
  entry in the package's table. The table is the parameter \<open>tbl\<close> of everything below.
\<close>

definition unidecode :: "(char \<Rightarrow> string) \<Rightarrow> string \<Rightarrow> string" where
  "unidecode tbl s = concat (map (\<lambda>c. if (of_char c :: nat) < 128 then [c] else tbl c) s)"

text \<open>The characters the pattern \<open>[^a-zA-Z0-9]\<close> does not match.\<close>

definition is_alnum :: "char \<Rightarrow> bool" where
  "is_alnum c =
     (let n = (of_char c :: nat) in
      (97 \<le> n \<and> n \<le> 122) \<or> (65 \<le> n \<and> n \<le> 90) \<or> (48 \<le> n \<and> n \<le> 57))"

definition get_compare_string :: "(char \<Rightarrow> string) \<Rightarrow> string \<Rightarrow> string" where
  "get_compare_string tbl input_str =
     (let unaccented_string = unidecode tbl input_str
      in str_lower (filter is_alnum unaccented_string))"

definition compare_strings :: "(char \<Rightarrow> string) \<Rightarrow> string \<Rightarrow> string \<Rightarrow> bool \<Rightarrow> bool" where
  "compare_strings tbl str1 str2 strict =
     (let match = (str_lower str1 = str_lower str2) in
      if \<not> match \<and> \<not> strict
      then get_compare_string tbl str1 = get_compare_string tbl str2
      else match)"

text \<open>
  Modelled from the spec: the classes Artist, Album and Track of
  \<open>music_assistant.models.media_types\<close>, which is not among the source files. The
  fields are the ones the comparison functions read, with the types of the spec's data
  model. A track's duration is a number of seconds; its type \<open>'n\<close> is left open (the
  statements below hold in every ordered ring: \<open>int\<close>, \<open>rat\<close>, \<open>real\<close>).
\<close>

record artist =
  name :: string

record album =
  provider :: string
  item_id :: string
  upc :: "string option"
  name :: string
  version :: string
  artist :: artist
  year :: "int option"

record 'n track =
  provider :: string
  item_id :: string
  isrc :: "string option"
  name :: string
  version :: string
  artists :: "artist list"
  albums :: "album list option"
  album :: album
  duration :: 'n

definition compare_artists :: "(char \<Rightarrow> string) \<Rightarrow> artist list \<Rightarrow> artist list \<Rightarrow> bool" where
  "compare_artists tbl left_artists right_artists =
     list_ex (\<lambda>left_artist.
       list_ex (\<lambda>right_artist.
         compare_strings tbl (artist.name left_artist) (artist.name right_artist) False)
         right_artists)
       left_artists"

definition compare_album :: "(char \<Rightarrow> string) \<Rightarrow> album \<Rightarrow> album \<Rightarrow> bool" where
  "compare_album tbl left_album right_album =
     (if album.provider left_album = album.provider right_album
         \<and> album.item_id left_album = album.item_id right_album
      then True
      else if truthy (upc left_album) \<and> upc left_album = upc right_album
      then True
      else if \<not> compare_strings tbl (album.name left_album) (album.name right_album) False
      then False
      else if \<not> compare_strings tbl (album.version left_album) (album.version right_album) False
      then False
      else if \<not> compare_strings tbl (artist.name (artist left_album))
                  (artist.name (artist right_album)) False
      then False
      else if year left_album \<noteq> year right_album
      then False
      else True)"

definition compare_albums :: "(char \<Rightarrow> string) \<Rightarrow> album list \<Rightarrow> album list \<Rightarrow> bool" where
  "compare_albums tbl left_albums right_albums =
     list_ex (\<lambda>left_album.
       list_ex (\<lambda>right_album. compare_album tbl left_album right_album) right_albums)
       left_albums"

text \<open>\<open>track.albums or [track.album]\<close>: an absent or empty list gives way to the single album.\<close>

fun albums_or_album :: "album list option \<Rightarrow> album \<Rightarrow> album list" where
  "albums_or_album (Some (a # as)) single = a # as"
| "albums_or_album (Some []) single = [single]"
| "albums_or_album None single = [single]"

definition compare_track ::
  "(char \<Rightarrow> string) \<Rightarrow> ('n::linordered_idom) track \<Rightarrow> 'n track \<Rightarrow> bool" where
  "compare_track tbl left_track right_track =
     (if track.provider left_track = track.provider right_track
         \<and> track.item_id left_track = track.item_id right_track
      then True
      else if truthy (isrc left_track) \<and> isrc left_track = isrc right_track
      then True
      else if \<not> compare_strings tbl (track.name left_track) (track.name right_track) False
      then False
      else if \<not> compare_strings tbl (track.version left_track) (track.version right_track) False
      then False
      else if \<not> compare_artists tbl (artists left_track) (artists right_track)
      then False
      else
        (let left_albums = albums_or_album (albums left_track) (album left_track);
             right_albums = albums_or_album (albums right_track) (album right_track)
         in if \<not> (compare_albums tbl left_albums right_albums
                   \<or> \<bar>duration left_track - duration right_track\<bar> \<le> 5)
            then False
            else True))"

section \<open>utils.py\<close>

text \<open>Sequencing of steps that may raise, and \<open>s.split(sep)[i]\<close>.\<close>

definition bind_result :: "error + 'a \<Rightarrow> ('a \<Rightarrow> error + 'b) \<Rightarrow> error + 'b" where
  "bind_result m f = (case m of Inl e \<Rightarrow> Inl e | Inr x \<Rightarrow> f x)"

definition split_item :: "'a list \<Rightarrow> 'a list \<Rightarrow> nat \<Rightarrow> error + 'a list" where
  "split_item s sep i = bind_result (str_split s sep) (\<lambda>parts. item parts i)"

text \<open>
  \<open>get_version_substitute\<close>, in the three steps of its body: the substitution of
  \<open>edit\<close> and \<open>edition\<close> (lines 183 to 185), the leading \<open>the\<close> (lines 186 and 187), and
  the table of universal version types (lines 188 to 195).
\<close>

definition substitute_edit :: "string \<Rightarrow> string" where
  "substitute_edit version_str =
     (if is_in ''edition'' version_str \<or> is_in ''edit'' version_str
      then str_replace (str_replace version_str '' edition'' '' version'') '' edit '' '' version''
      else version_str)"

definition drop_the :: "string \<Rightarrow> error + string" where
  "drop_the version_str =
     (if startswith version_str ''the '' then split_item version_str ''the '' 1
      else Inr version_str)"

definition universal_version :: "string \<Rightarrow> string" where
  "universal_version version_str =
     (if is_in ''radio mix'' version_str then ''radio version''
      else if is_in ''video mix'' version_str then ''video version''
      else if is_in ''spanglish'' version_str \<or> is_in ''spanish'' version_str
      then ''spanish version''
      else if endswith version_str ''remaster'' then ''remaster''
      else version_str)"

definition get_version_substitute :: "string \<Rightarrow> error + string" where
  "get_version_substitute version_str =
     bind_result (drop_the (substitute_edit (str_lower version_str)))
       (\<lambda>version_str. Inr (str_strip (universal_version version_str)))"

definition splitters :: "string list" where
  "splitters = ['' ('', '' ['', '' - '', '' ('', '' ['', ''-'']"

definition end_splitters :: "string list" where
  "end_splitters = ['')'', '']'']"

definition ignore_strs :: "string list" where
  "ignore_strs = [''feat.'', ''featuring'', ''ft.'', ''with '', '' & '', ''explicit'']"

definition version_strs :: "string list" where
  "version_strs =
     [''version'', ''live'', ''edit'', ''remix'', ''mix'', ''acoustic'', '' instrumental'',
      ''karaoke'', ''remaster'', ''versie'', ''radio'', ''unplugged'', ''disco'']"

text \<open>
  The body of \<open>for title_part in title_parts\<close> (lines 140 to 171). The loop variable
  \<open>title_part\<close> is cut at the end splitters first; the state the body updates is the
  pair \<open>(title, version)\<close>.
\<close>

definition cut_end :: "string \<Rightarrow> error + string" where
  "cut_end title_part =
     for_each end_splitters
       (\<lambda>end_splitter title_part.
          if is_in end_splitter title_part then split_item title_part end_splitter 0
          else Inr title_part)
       title_part"

definition ignore_loop :: "string \<Rightarrow> string \<Rightarrow> string \<Rightarrow> error + string" where
  "ignore_loop splitter title_part title =
     for_each ignore_strs
       (\<lambda>ignore_str title.
          if is_in ignore_str title_part then split_item title (splitter @ title_part) 0
          else Inr title)
       title"

definition version_loop ::
  "string \<Rightarrow> string \<Rightarrow> string \<times> string \<Rightarrow> error + string \<times> string" where
  "version_loop splitter title_part state =
     for_each version_strs
       (\<lambda>version_str (title, version).
          if is_in version_str title_part
          then (let version = title_part
                in bind_result (split_item title (splitter @ version) 0)
                     (\<lambda>title. Inr (title, version)))
          else Inr (title, version))
       state"

definition part_body ::
  "string \<Rightarrow> string \<Rightarrow> string \<times> string \<Rightarrow> error + string \<times> string" where
  "part_body splitter title_part state =
     bind_result (cut_end title_part)
       (\<lambda>title_part.
          bind_result (ignore_loop splitter title_part (fst state))
            (\<lambda>title. version_loop splitter title_part (title, snd state)))"

definition splitter_body :: "string \<Rightarrow> string \<times> string \<Rightarrow> error + string \<times> string" where
  "splitter_body splitter state =
     (if is_in splitter (fst state)
      then bind_result (str_split (fst state) splitter)
             (\<lambda>title_parts. for_each title_parts (part_body splitter) state)
      else Inr state)"

text \<open>
  \<open>parse_title_and_version\<close>; \<open>track_version\<close> is \<open>None\<close> when the caller gives none.
  The two results have been through \<open>title()\<close>, so they are lists of code points.
\<close>

definition parse_title_and_version ::
  "string \<Rightarrow> string option \<Rightarrow> error + nat list \<times> nat list" where
  "parse_title_and_version track_title track_version =
     bind_result (for_each splitters splitter_body (str_lower track_title, ''''))
       (\<lambda>(title, version).
          let title = str_title (str_strip title);
              version = (if version = [] \<and> truthy track_version
                         then (case track_version of Some v \<Rightarrow> v | None \<Rightarrow> version)
                         else version)
          in bind_result (get_version_substitute version)
               (\<lambda>version. Inr (title, str_title version)))"

section \<open>Sample records\<close>

text \<open>Catalogue entries of two providers, used where a statement is tried on concrete data.\<close>

definition abbey_road :: album where
  "abbey_road = \<lparr>album.provider = ''spotify'', item_id = ''1'', upc = Some ''0602537'',
     name = ''Abbey Road'', version = '''', artist = \<lparr>artist.name = ''The Beatles''\<rparr>,
     year = Some 1969\<rparr>"

definition abbey_road_remaster :: album where
  "abbey_road_remaster = \<lparr>album.provider = ''qobuz'', item_id = ''77'', upc = Some ''0602537'',
     name = ''Abbey Road (Remastered)'', version = ''2019 Mix'',
     artist = \<lparr>artist.name = ''Beatles''\<rparr>, year = Some 2019\<rparr>"

definition come_together :: "int track" where
  "come_together = \<lparr>track.provider = ''spotify'', item_id = ''5'', isrc = Some ''GBAYE0601690'',
     name = ''Come Together'', version = '''', artists = [\<lparr>artist.name = ''The Beatles''\<rparr>],
     albums = None, album = abbey_road, duration = 259\<rparr>"

definition come_together_live :: "int track" where
  "come_together_live = \<lparr>track.provider = ''qobuz'', item_id = ''9'', isrc = Some ''GBAYE0601690'',
     name = ''Come Together (Live)'', version = ''Live'', artists = [],
     albums = Some [], album = abbey_road_remaster, duration = 300\<rparr>"

text \<open>
  The same song in the catalogue of provider \<open>prov\<close>, \<open>secs\<close> seconds long, on an album
  named after the provider: two such tracks of different providers share name, version
  and artist, and their albums do not match.
\<close>

definition yesterday :: "int \<Rightarrow> string \<Rightarrow> int track" where
  "yesterday secs prov = \<lparr>track.provider = prov, item_id = ''12'', isrc = None,
     name = ''Yesterday'', version = '''', artists = [\<lparr>artist.name = ''The Beatles''\<rparr>],
     albums = None,
     album = \<lparr>album.provider = prov, item_id = ''3'', upc = None, name = prov,
       version = '''', artist = \<lparr>artist.name = ''The Beatles''\<rparr>, year = None\<rparr>,
     duration = secs\<rparr>"

section \<open>The comparison key\<close>

lemma lower_char_alnum:
  assumes "is_alnum c"
  shows "is_alnum (lower_char c)" and "(of_char (lower_char c) :: nat) < 128"
    and "lower_char (lower_char c) = lower_char c"
  using assms by (auto simp: is_alnum_def lower_char_def Let_def)

lemma unidecode_ascii:
  "\<forall>c\<in>set s. (of_char c :: nat) < 128 \<Longrightarrow> unidecode tbl s = s"
  by (induction s) (auto simp: unidecode_def)

lemma str_lower_Nil_iff: "str_lower s = [] \<longleftrightarrow> s = []"
  by (simp add: str_lower_def)

lemma get_compare_string_Nil: "get_compare_string tbl [] = []"
  by (simp add: get_compare_string_def unidecode_def str_lower_def)

text \<open>
  C8. Canonicalisation is idempotent: the key of a key is the key itself, whatever the
  transliteration table holds.
\<close>

theorem get_compare_string_idempotent:
  "get_compare_string tbl (get_compare_string tbl s) = get_compare_string tbl s"
proof -
  define r where "r = get_compare_string tbl s"
  have mem: "\<And>c. c \<in> set r \<Longrightarrow> \<exists>d. is_alnum d \<and> c = lower_char d"
    by (auto simp: r_def get_compare_string_def str_lower_def)
  have "unidecode tbl r = r"
    by (rule unidecode_ascii) (use mem lower_char_alnum(2) in blast)
  moreover have "filter is_alnum r = r"
    using mem lower_char_alnum(1) by (auto simp: filter_id_conv)
  moreover have "str_lower r = r"
    unfolding str_lower_def
  proof (rule map_idI)
    fix c assume "c \<in> set r"
    then obtain d where "is_alnum d" "c = lower_char d" using mem by blast
    then show "lower_char c = c" by (simp add: lower_char_alnum(3))
  qed
  ultimately have "get_compare_string tbl r = r"
    by (simp add: get_compare_string_def)
  then show ?thesis by (simp add: r_def)
qed

section \<open>Comparing strings\<close>

text \<open>
  C6. In strict mode two strings match exactly when their lower-cased forms are equal.
  \<open>Caf\<close> followed by U+00E9 does not match \<open>Cafe\<close> in strict mode, and matches it
  otherwise, for every transliteration table that sends U+00E9 to \<open>e\<close> (as the
  package's table does).
\<close>

theorem compare_strings_strict:
  "compare_strings tbl a b True = (str_lower a = str_lower b)
   \<and> \<not> compare_strings tbl (''Caf'' @ [CHR 0xE9]) ''Cafe'' True
   \<and> (tbl (CHR 0xE9) = ''e'' \<longrightarrow> compare_strings tbl (''Caf'' @ [CHR 0xE9]) ''Cafe'' False)"
proof (intro conjI impI)
  show "compare_strings tbl a b True = (str_lower a = str_lower b)"
    by (simp add: compare_strings_def)
  have "str_lower (''Caf'' @ [CHR 0xE9]) \<noteq> str_lower ''Cafe''" by code_simp
  then show "\<not> compare_strings tbl (''Caf'' @ [CHR 0xE9]) ''Cafe'' True"
    by (simp add: compare_strings_def)
  assume e: "tbl (CHR 0xE9) = ''e''"
  have "unidecode tbl (''Caf'' @ [CHR 0xE9]) = ''Cafe''"
    by (simp add: unidecode_def e)
  moreover have "unidecode tbl ''Cafe'' = ''Cafe''"
    by (simp add: unidecode_def)
  ultimately show "compare_strings tbl (''Caf'' @ [CHR 0xE9]) ''Cafe'' False"
    by (simp add: compare_strings_def get_compare_string_def Let_def)
qed

text \<open>
  The statement at the table that knows U+00E9 only, and at the strings \<open>ABC\<close> and
  \<open>abc\<close>.
\<close>

theorem compare_strings_strict_witness:
  "compare_strings (\<lambda>c. if c = CHR 0xE9 then ''e'' else []) ''ABC'' ''abc'' True
   \<and> \<not> compare_strings (\<lambda>c. if c = CHR 0xE9 then ''e'' else [])
         (''Caf'' @ [CHR 0xE9]) ''Cafe'' True
   \<and> compare_strings (\<lambda>c. if c = CHR 0xE9 then ''e'' else [])
       (''Caf'' @ [CHR 0xE9]) ''Cafe'' False"
proof -
  have l: "str_lower ''ABC'' = str_lower ''abc''" by code_simp
  show ?thesis
    using compare_strings_strict
      [of "\<lambda>c. if c = CHR 0xE9 then ''e'' else []" "''ABC''" "''abc''"] l
    by simp
qed

text \<open>
  C9. A non-empty string matches the empty string (not strict) exactly when its
  comparison key is empty; the empty string matches itself in both modes.
\<close>

theorem compare_with_empty:
  "(s \<noteq> [] \<longrightarrow> compare_strings tbl s '''' False = (get_compare_string tbl s = ''''))
   \<and> compare_strings tbl '''' '''' strict"
  by (simp add: compare_strings_def str_lower_def get_compare_string_Nil)

text \<open>
  The statement at a string of punctuation, which matches the empty string, and at a
  letter, which does not.
\<close>

theorem compare_with_empty_witness:
  "compare_strings (\<lambda>c. []) ''?!'' '''' False
   \<and> get_compare_string (\<lambda>c. []) ''?!'' = ''''
   \<and> \<not> compare_strings (\<lambda>c. []) ''a'' '''' False
   \<and> get_compare_string (\<lambda>c. []) ''a'' = ''a''"
proof -
  have a: "get_compare_string (\<lambda>c. []) ''?!'' = ''''" by code_simp
  have b: "get_compare_string (\<lambda>c. []) ''a'' = ''a''" by code_simp
  show ?thesis
    using compare_with_empty [of "''?!''" "\<lambda>c. []"] compare_with_empty [of "''a''" "\<lambda>c. []"] a b
    by simp
qed

section \<open>Symmetry of the comparison\<close>

lemma compare_strings_commute:
  "compare_strings tbl a b strict = compare_strings tbl b a strict"
  by (auto simp: compare_strings_def Let_def)

lemma list_ex_swap:
  "list_ex (\<lambda>x. list_ex (\<lambda>y. P x y) ys) xs = list_ex (\<lambda>y. list_ex (\<lambda>x. P x y) xs) ys"
  by (auto simp: list_ex_iff)

lemma compare_artists_commute: "compare_artists tbl xs ys = compare_artists tbl ys xs"
  unfolding compare_artists_def
  by (subst list_ex_swap) (simp add: compare_strings_commute [of tbl])

lemma compare_album_commute: "compare_album tbl x y = compare_album tbl y x"
  unfolding compare_album_def
  by (auto simp: compare_strings_commute [of tbl "album.name x"]
      compare_strings_commute [of tbl "album.version x"]
      compare_strings_commute [of tbl "artist.name (artist x)"])

lemma compare_albums_commute: "compare_albums tbl xs ys = compare_albums tbl ys xs"
  unfolding compare_albums_def
  by (subst list_ex_swap) (simp add: compare_album_commute [of tbl])

lemma compare_track_commute: "compare_track tbl x y = compare_track tbl y x"
  unfolding compare_track_def Let_def
  by (auto simp: compare_strings_commute [of tbl "track.name x"]
      compare_strings_commute [of tbl "track.version x"]
      compare_artists_commute [of tbl "artists x"]
      compare_albums_commute [of tbl "albums_or_album (albums x) (album x)"]
      abs_minus_commute)

text \<open>
  C7. The three comparisons are symmetric: swapping the two strings, albums or tracks
  does not change the verdict.
\<close>

theorem comparison_symmetric:
  "compare_strings tbl a b strict = compare_strings tbl b a strict
   \<and> compare_album tbl x y = compare_album tbl y x
   \<and> compare_track tbl t u = compare_track tbl u t"
  using compare_strings_commute [of tbl a b strict] compare_album_commute [of tbl x y]
    compare_track_commute [of tbl t u]
  by (intro conjI)

section \<open>Authoritative identifiers and the duration rule\<close>

text \<open>
  C4. Two albums whose \<open>upc\<close> are present, non-empty and equal match, whatever their
  other fields hold; so do two tracks whose \<open>isrc\<close> are present, non-empty and equal.
\<close>

theorem identifier_override:
  "(upc x = Some u \<and> upc y = Some u \<and> u \<noteq> [] \<longrightarrow> compare_album tbl x y)
   \<and> (isrc t = Some i \<and> isrc t' = Some i \<and> i \<noteq> [] \<longrightarrow> compare_track tbl t t')"
  by (simp add: compare_album_def compare_track_def)

text \<open>
  The statement at two albums that share the \<open>upc\<close> and differ in provider, name,
  version, artist and year, and at two tracks that share the \<open>isrc\<close> and differ in
  name, version, artists, albums and duration.
\<close>

theorem identifier_override_witness:
  "compare_album (\<lambda>c. []) abbey_road abbey_road_remaster
   \<and> compare_track (\<lambda>c. []) come_together come_together_live"
  using identifier_override [where x = abbey_road and y = abbey_road_remaster
      and u = "''0602537''" and t = come_together and t' = come_together_live
      and i = "''GBAYE0601690''" and tbl = "\<lambda>c. []"]
  by (simp add: abbey_road_def abbey_road_remaster_def come_together_def come_together_live_def)

text \<open>
  C5. Two tracks that neither the provider and item id nor the \<open>isrc\<close> match, whose
  names, versions and artists match and none of whose albums match: they match when
  their durations differ by exactly 5, and do not match when they differ by exactly 6.
\<close>

theorem duration_fallback:
  assumes "\<not> (track.provider x = track.provider y \<and> track.item_id x = track.item_id y)"
    and "\<not> (truthy (isrc x) \<and> isrc x = isrc y)"
    and "compare_strings tbl (track.name x) (track.name y) False"
    and "compare_strings tbl (track.version x) (track.version y) False"
    and "compare_artists tbl (artists x) (artists y)"
    and "\<not> compare_albums tbl (albums_or_album (albums x) (album x))
             (albums_or_album (albums y) (album y))"
  shows "(\<bar>duration x - duration y\<bar> = 5 \<longrightarrow> compare_track tbl x y)
       \<and> (\<bar>duration x - duration y\<bar> = 6 \<longrightarrow> \<not> compare_track tbl x y)"
  using assms by (auto simp: compare_track_def Let_def)

text \<open>The statement at durations 125 and 130 (a match), and 125 and 131 (no match).\<close>

theorem duration_fallback_witness:
  "compare_track (\<lambda>c. []) (yesterday 125 ''spotify'') (yesterday 130 ''qobuz'')
   \<and> \<not> compare_track (\<lambda>c. []) (yesterday 125 ''spotify'') (yesterday 131 ''qobuz'')"
proof -
  have n: "\<not> compare_strings (\<lambda>c. []) ''spotify'' ''qobuz'' False"
    by code_simp
  have s: "compare_strings (\<lambda>c. []) s s False" for s
    by (simp add: compare_strings_def)
  show ?thesis
    using duration_fallback [of "yesterday 125 ''spotify''" "yesterday 130 ''qobuz''" "\<lambda>c. []"]
      duration_fallback [of "yesterday 125 ''spotify''" "yesterday 131 ''qobuz''" "\<lambda>c. []"] n s
    by (simp add: yesterday_def compare_artists_def compare_albums_def compare_album_def)
qed

section \<open>The title parser never raises\<close>

lemma split_on_not_Nil: "split_on sep acc s \<noteq> []"
  by (induction sep acc s rule: split_on.induct) auto

lemma split_on_prefix_length:
  assumes "sep \<noteq> []" and "prefix sep s"
  shows "2 \<le> length (split_on sep [] s)"
proof (cases s)
  case Nil
  with assms show ?thesis by simp
next
  case (Cons c cs)
  have "split_on sep [] (drop (length sep - 1) cs) \<noteq> []"
    by (rule split_on_not_Nil)
  then have "1 \<le> length (split_on sep [] (drop (length sep - 1) cs))"
    by (cases "split_on sep [] (drop (length sep - 1) cs)") auto
  with assms Cons show ?thesis by simp
qed

text \<open>Element 0 of a split exists; element 1 exists when the text starts with the separator.\<close>

lemma split_item_0:
  "sep \<noteq> [] \<Longrightarrow> split_item s sep 0 = Inr (hd (split_on sep [] s))"
  using split_on_not_Nil [of sep "[]" s]
  by (simp add: split_item_def str_split_def bind_result_def item_def hd_conv_nth)

lemma split_item_1:
  "sep \<noteq> [] \<Longrightarrow> prefix sep s \<Longrightarrow> split_item s sep 1 = Inr (split_on sep [] s ! 1)"
  using split_on_prefix_length [of sep s]
  by (simp add: split_item_def str_split_def bind_result_def item_def)

lemma for_each_total:
  assumes "\<And>x s. x \<in> set xs \<Longrightarrow> \<exists>s'. body x s = Inr s'"
  shows "\<exists>s'. for_each xs body s = Inr s'"
  using assms
proof (induction xs arbitrary: s)
  case Nil
  show ?case by simp
next
  case (Cons x xs)
  from Cons.prems obtain s1 where s1: "body x s = Inr s1" by (meson list.set_intros(1))
  from Cons.IH [of s1] Cons.prems obtain s2 where "for_each xs body s1 = Inr s2"
    by (meson list.set_intros(2))
  with s1 show ?case by simp
qed

lemma cut_end_total: "\<exists>p. cut_end title_part = Inr p"
  unfolding cut_end_def
  by (rule for_each_total) (auto simp: end_splitters_def split_item_0)

lemma ignore_loop_total:
  "splitter \<noteq> [] \<Longrightarrow> \<exists>t. ignore_loop splitter title_part title = Inr t"
  unfolding ignore_loop_def
  by (rule for_each_total) (simp add: split_item_0)

lemma version_loop_total:
  "splitter \<noteq> [] \<Longrightarrow> \<exists>st. version_loop splitter title_part state = Inr st"
  unfolding version_loop_def
  by (rule for_each_total) (auto simp: split_item_0 bind_result_def)

lemma part_body_total:
  assumes "splitter \<noteq> []"
  shows "\<exists>st. part_body splitter title_part state = Inr st"
proof -
  obtain p where p: "cut_end title_part = Inr p"
    using cut_end_total by blast
  obtain t where t: "ignore_loop splitter p (fst state) = Inr t"
    using ignore_loop_total [OF assms] by blast
  obtain st where "version_loop splitter p (t, snd state) = Inr st"
    using version_loop_total [OF assms] by blast
  with p t show ?thesis by (simp add: part_body_def bind_result_def)
qed

lemma splitter_body_total:
  assumes "splitter \<noteq> []"
  shows "\<exists>st. splitter_body splitter state = Inr st"
proof (cases "is_in splitter (fst state)")
  case True
  have "\<exists>st. for_each (split_on splitter [] (fst state)) (part_body splitter) state = Inr st"
    by (rule for_each_total) (rule part_body_total [OF assms])
  with True assms show ?thesis
    by (simp add: splitter_body_def str_split_def bind_result_def)
next
  case False
  then show ?thesis by (simp add: splitter_body_def)
qed

lemma splitter_loop_total: "\<exists>st. for_each splitters splitter_body state = Inr st"
  by (rule for_each_total) (rule splitter_body_total, auto simp: splitters_def)

lemma drop_the_total: "\<exists>v. drop_the version_str = Inr v"
  by (simp add: drop_the_def startswith_def split_item_1 del: One_nat_def)

lemma get_version_substitute_total: "\<exists>v. get_version_substitute version_str = Inr v"
  using drop_the_total [of "substitute_edit (str_lower version_str)"]
  by (auto simp: get_version_substitute_def bind_result_def)

text \<open>
  C10. \<open>parse_title_and_version\<close> returns a pair for every title, with or without a
  fallback version, and \<open>get_version_substitute\<close> returns a string for every input:
  neither raises, so every \<open>[0]\<close> and \<open>[1]\<close> in them is taken of a list that is long
  enough.
\<close>

theorem parse_title_and_version_total:
  "(\<exists>title version. parse_title_and_version track_title track_version = Inr (title, version))
   \<and> (\<exists>v. get_version_substitute version_str = Inr v)"
proof
  obtain t v where tv: "for_each splitters splitter_body (str_lower track_title, '''') = Inr (t, v)"
    using splitter_loop_total [of "(str_lower track_title, '''')"] by fastforce
  define v' where "v' = (if v = [] \<and> truthy track_version
                         then (case track_version of Some w \<Rightarrow> w | None \<Rightarrow> v) else v)"
  obtain w where "get_version_substitute v' = Inr w"
    using get_version_substitute_total by blast
  with tv show "\<exists>title version. parse_title_and_version track_title track_version = Inr (title, version)"
    by (simp add: parse_title_and_version_def bind_result_def Let_def v'_def)
  show "\<exists>v. get_version_substitute version_str = Inr v"
    by (rule get_version_substitute_total)
qed

section \<open>The title parser on the documented examples\<close>

text \<open>
  C1. For \<open>Hello World (Radio Edit)\<close> and no fallback version the code returns the
  title \<open>Hello World\<close> and the version \<open>Radio Edit\<close>, not \<open>Radio Version\<close>: the second
  replacement of \<open>get_version_substitute\<close> looks for \<open>edit\<close> with a space behind it, and
  in \<open>radio edit\<close> the word ends the string.
\<close>

theorem parse_radio_edit:
  "parse_title_and_version ''Hello World (Radio Edit)'' None
     = Inr (codes ''Hello World'', codes ''Radio Edit'')
   \<and> get_version_substitute ''radio edit'' = Inr ''radio edit''"
  by code_simp

text \<open>
  C2, as stated, fails: for \<open>Song Title feat. Someone (Remix)\<close> the returned title still
  holds the \<open>feat.\<close> clause. No split marker stands before \<open>feat.\<close>, so the clause belongs
  to the first part of the title, which no truncation removes.
\<close>

theorem parse_feat_keeps_clause:
  "parse_title_and_version ''Song Title feat. Someone (Remix)'' None
     = Inr (codes ''Song Title Feat. Someone'', codes ''Remix'')
   \<and> is_in (codes ''Feat. Someone'') (codes ''Song Title Feat. Someone'')"
  by code_simp

text \<open>
  C2, amended: for \<open>Song Title feat. Someone (Remix)\<close> and no fallback version the code
  returns the title \<open>Song Title Feat. Someone\<close> and the version \<open>Remix\<close>.
\<close>

theorem parse_feat_remix:
  "parse_title_and_version ''Song Title feat. Someone (Remix)'' None
     = Inr (codes ''Song Title Feat. Someone'', codes ''Remix'')"
  by code_simp

text \<open>
  A \<open>feat.\<close> clause that follows a split marker is dropped, as the ignore vocabulary
  intends.
\<close>

lemma parse_feat_in_brackets:
  "parse_title_and_version ''Song Title (feat. Someone) (Remix)'' None
     = Inr (codes ''Song Title'', codes ''Remix'')"
  by code_simp

text \<open>
  C3. For \<open>the best of the best\<close> the second step returns \<open>best of \<close>, not the whole
  remainder \<open>best of the best\<close>: it takes element 1 of the split at every \<open>the \<close>, which
  ends where the next \<open>the \<close> begins. \<open>get_version_substitute\<close> then returns \<open>best of\<close>.
\<close>

theorem drop_the_cuts_at_next_the:
  "drop_the ''the best of the best'' = Inr ''best of ''
   \<and> get_version_substitute ''the best of the best'' = Inr ''best of''"
  by code_simp

section \<open>Further properties\<close>

lemma split_on_no_occurrence:
  "\<not> is_in sep s \<Longrightarrow> split_on sep acc s = [rev acc @ s]"
  by (induction s arbitrary: acc) auto

text \<open>
  Where the text behind the leading \<open>the \<close> holds no further \<open>the \<close>, the second step of
  \<open>get_version_substitute\<close> returns that text unchanged.
\<close>

theorem drop_the_single:
  "\<not> is_in ''the '' r \<Longrightarrow> drop_the (''the '' @ r) = Inr r"
  by (simp add: drop_the_def startswith_def split_item_def str_split_def bind_result_def
      item_def split_on_no_occurrence)

text \<open>The statement at \<open>the best of\<close>.\<close>

theorem drop_the_single_witness:
  "drop_the ''the best of'' = Inr ''best of''"
proof -
  have "\<not> is_in ''the '' ''best of''" by code_simp
  then show ?thesis using drop_the_single [of "''best of''"] by simp
qed

text \<open>An empty list of artists matches no list, on either side.\<close>

theorem compare_artists_empty:
  "\<not> compare_artists tbl [] ys \<and> \<not> compare_artists tbl xs []"
  by (simp add: compare_artists_def list_ex_iff)

end
